theory Spec2Isabelle
  imports Complex_Main
begin

section \<open>Fixed-point scalars and vectors\<close>

text \<open>
  The renderer classes compute with \<^verbatim>\<open>Fixed\<close>, \<^verbatim>\<open>FixedVector2\<close> and
  \<^verbatim>\<open>FixedRect\<close> of the package \<^verbatim>\<open>@esengine/nova-ecs-math\<close>, which is an
  external dependency and not part of the sources.  A scalar is a value of an ordered
  field \<open>'a\<close> (the rationals and the reals are instances); \<^verbatim>\<open>add\<close>,
  \<^verbatim>\<open>subtract\<close>, \<^verbatim>\<open>multiply\<close>, \<^verbatim>\<open>negate\<close>, \<^verbatim>\<open>equals\<close>,
  \<^verbatim>\<open>lessThan\<close>, \<^verbatim>\<open>lessThanOrEqual\<close> and \<^verbatim>\<open>greaterThan\<close> are the
  field's own operations.  JavaScript numbers that are turned into scalars by
  \<^verbatim>\<open>new Fixed(n)\<close> (viewport coordinates, literals) are values of the same type.
\<close>

datatype error = DivisionByZero

definition bind_err :: "error + 'b \<Rightarrow> ('b \<Rightarrow> error + 'c) \<Rightarrow> error + 'c" where
  "bind_err m f = (case m of Inl e \<Rightarrow> Inl e | Inr v \<Rightarrow> f v)"

text \<open>
  Modelled from the spec: \<^verbatim>\<open>Fixed.divide\<close> is missing from the sources.  The
  spec describes the scalar operations as exact and division by zero as an error that is
  signalled rather than a value.
\<close>

definition divide_fixed :: "'a::linordered_field \<Rightarrow> 'a \<Rightarrow> error + 'a" where
  "divide_fixed a b = (if b = 0 then Inl DivisionByZero else Inr (a / b))"

text \<open>
  Modelled from the spec: \<^verbatim>\<open>Fixed.floor\<close> is missing from the sources; the
  spec uses it as the largest whole number below its argument, again a scalar.
\<close>

definition floor_fixed :: "'a::floor_ceiling \<Rightarrow> 'a" where
  "floor_fixed a = of_int \<lfloor>a\<rfloor>"

datatype 'a FixedVector2 = FixedVector2 (x_of: 'a) (y_of: 'a)

datatype 'a FixedRect =
  FixedRect (rect_x: 'a) (rect_y: 'a) (rect_width: 'a) (rect_height: 'a)

definition vec_add :: "'a::linordered_field FixedVector2 \<Rightarrow> 'a FixedVector2 \<Rightarrow> 'a FixedVector2" where
  "vec_add u v = FixedVector2 (x_of u + x_of v) (y_of u + y_of v)"

definition vec_subtract :: "'a::linordered_field FixedVector2 \<Rightarrow> 'a FixedVector2 \<Rightarrow> 'a FixedVector2" where
  "vec_subtract u v = FixedVector2 (x_of u - x_of v) (y_of u - y_of v)"

definition vec_multiply :: "'a::linordered_field FixedVector2 \<Rightarrow> 'a \<Rightarrow> 'a FixedVector2" where
  "vec_multiply u k = FixedVector2 (x_of u * k) (y_of u * k)"

section \<open>Sprite animations (BaseGameRenderer)\<close>

record ('t, 'a) AnimationFrame =
  texture :: 't
  sourceRect :: "'a FixedRect"
  duration :: 'a
  offset :: "'a FixedVector2 option"

record ('t, 'a) SpriteAnimation =
  name :: string
  frames :: "('t, 'a) AnimationFrame list"
  loop :: bool
  playbackSpeed :: 'a

definition createAnimation ::
  "string \<Rightarrow> 't \<Rightarrow> 'a FixedRect list \<Rightarrow> 'a::linordered_field \<Rightarrow> bool \<Rightarrow> ('t, 'a) SpriteAnimation" where
  "createAnimation nm tex frameRects frameDuration lp =
     \<lparr> name = nm,
       frames = map (\<lambda>rect. \<lparr> texture = tex, sourceRect = rect,
                               duration = frameDuration, offset = None \<rparr>) frameRects,
       loop = lp,
       playbackSpeed = 1 \<rparr>"

text \<open>The total effective duration of a list of frames at a playback speed, the sum of
  \<open>duration / speed\<close> over the frames, written out as a sum.\<close>

abbreviation effective_total :: "'a::linordered_field \<Rightarrow> ('t, 'a) AnimationFrame list \<Rightarrow> 'a" where
  "effective_total speed fs \<equiv> sum_list (map (\<lambda>f. duration f / speed) fs)"

text \<open>The first loop of \<^verbatim>\<open>getCurrentAnimationFrame\<close>: it adds up
  \<^verbatim>\<open>frame.duration.divide(animation.playbackSpeed)\<close> over the frames.\<close>

fun total_duration ::
  "'a::linordered_field \<Rightarrow> ('t, 'a) AnimationFrame list \<Rightarrow> 'a \<Rightarrow> error + 'a" where
  "total_duration speed [] totalDuration = Inr totalDuration"
| "total_duration speed (frame # rest) totalDuration =
     bind_err (divide_fixed (duration frame) speed)
       (\<lambda>d. total_duration speed rest (totalDuration + d))"

text \<open>The second loop: the walk over the frames with the accumulated time.  It yields
  the first frame whose accumulated upper bound lies strictly above the animation time, and
  \<open>None\<close> when the loop runs to its end without returning.\<close>

fun frame_walk ::
  "'a::linordered_field \<Rightarrow> 'a \<Rightarrow> ('t, 'a) AnimationFrame list \<Rightarrow> 'a
     \<Rightarrow> error + ('t, 'a) AnimationFrame option" where
  "frame_walk speed animTime [] accumulatedTime = Inr None"
| "frame_walk speed animTime (frame # rest) accumulatedTime =
     bind_err (divide_fixed (duration frame) speed)
       (\<lambda>frameDuration.
          if animTime < accumulatedTime + frameDuration then Inr (Some frame)
          else frame_walk speed animTime rest (accumulatedTime + frameDuration))"

text \<open>The walk followed by the statement after it, which returns the last frame.\<close>

definition walk_or_last ::
  "('t, 'a::linordered_field) SpriteAnimation \<Rightarrow> 'a \<Rightarrow> error + ('t, 'a) AnimationFrame option" where
  "walk_or_last animation animTime =
     bind_err (frame_walk (playbackSpeed animation) animTime (frames animation) 0)
       (\<lambda>found. case found of
           Some frame \<Rightarrow> Inr (Some frame)
         | None \<Rightarrow> Inr (Some (frames animation ! (length (frames animation) - 1))))"

text \<open>The result is \<open>Inr None\<close> for JavaScript's \<^verbatim>\<open>null\<close>, \<open>Inr (Some frame)\<close>
  for a frame, and \<open>Inl e\<close> when a division raises.\<close>

definition getCurrentAnimationFrame ::
  "('t, 'a::floor_ceiling) SpriteAnimation \<Rightarrow> 'a \<Rightarrow> error + ('t, 'a) AnimationFrame option" where
  "getCurrentAnimationFrame animation currentTime =
     (if length (frames animation) = 0 then Inr None
      else
        bind_err (total_duration (playbackSpeed animation) (frames animation) 0)
          (\<lambda>totalDuration.
             if totalDuration = 0 then Inr (Some (frames animation ! 0))
             else if loop animation then
               bind_err (divide_fixed currentTime totalDuration)
                 (\<lambda>q. let quotient = floor_fixed q;
                          animTime = currentTime - quotient * totalDuration
                      in walk_or_last animation animTime)
             else if currentTime > totalDuration then
               Inr (Some (frames animation ! (length (frames animation) - 1)))
             else walk_or_last animation currentTime))"

section \<open>Render types and the base renderer (BaseRenderer)\<close>

text \<open>The components of a colour are JavaScript numbers between 0 and 1.\<close>

datatype Color = Color (red: rat) (green: rat) (blue: rat) (alpha: rat)

record 'a LineStyle =
  color :: Color
  thickness :: 'a
  dashPattern :: "'a list option"

record 'a ShapeStyle =
  fillColor :: "Color option"
  strokeColor :: "Color option"
  strokeThickness :: "'a option"
  shapeDashPattern :: "'a list option"

record 'a TextureStyle =
  tint :: "Color option"
  textureScale :: "'a FixedVector2 option"
  textureRotation :: "'a option"
  anchor :: "'a FixedVector2 option"
  flipX :: "bool option"
  flipY :: "bool option"
  opacity :: "rat option"

record 'a GridStyle =
  lineStyle :: "'a LineStyle"
  majorLineStyle :: "'a LineStyle option"
  majorLineInterval :: "int option"

record 'a Viewport =
  viewport_x :: 'a
  viewport_y :: 'a
  viewport_width :: 'a
  viewport_height :: 'a

text \<open>The counters of \<^verbatim>\<open>RenderStatistics\<close>; the wall-clock \<^verbatim>\<open>frameTime\<close> is
  left out.\<close>

record RenderStatistics =
  drawCalls :: nat
  triangles :: nat
  vertices :: nat
  textureBinds :: nat

text \<open>
  The backend is reached through the abstract hooks \<^verbatim>\<open>onDrawLine\<close>,
  \<^verbatim>\<open>onDrawPolygon\<close> and \<^verbatim>\<open>onDrawTextureRegion\<close>.  A renderer records the hook
  calls it makes, in order, in its field \<open>sink\<close>.
\<close>

datatype ('t, 'a) primitive =
    OnDrawLine "'a FixedVector2" "'a FixedVector2" "'a LineStyle"
  | OnDrawPolygon "'a FixedVector2 list" "'a ShapeStyle"
  | OnDrawTextureRegion 't "'a FixedRect" "'a FixedRect" "'a TextureStyle option"

record ('t, 'a) BaseRenderer =
  statistics :: RenderStatistics
  viewport :: "'a Viewport"
  sink :: "('t, 'a) primitive list"

text \<open>A call of a method either returns, with the renderer as the method left it, or an
  exception leaves it, with the renderer as it was when the exception was raised.\<close>

datatype 's outcome = Returned (final: 's) | Raised (raised: error) (final: 's)

definition incrementDrawCall ::
  "('t, 'a, 'm) BaseRenderer_scheme \<Rightarrow> ('t, 'a, 'm) BaseRenderer_scheme" where
  "incrementDrawCall r =
     r\<lparr>statistics := (statistics r)\<lparr>drawCalls := drawCalls (statistics r) + 1\<rparr>\<rparr>"

definition incrementTextureBinding ::
  "('t, 'a, 'm) BaseRenderer_scheme \<Rightarrow> ('t, 'a, 'm) BaseRenderer_scheme" where
  "incrementTextureBinding r =
     r\<lparr>statistics := (statistics r)\<lparr>textureBinds := textureBinds (statistics r) + 1\<rparr>\<rparr>"

definition drawLine ::
  "('t, 'a, 'm) BaseRenderer_scheme \<Rightarrow> 'a FixedVector2 \<Rightarrow> 'a FixedVector2 \<Rightarrow> 'a LineStyle
     \<Rightarrow> ('t, 'a, 'm) BaseRenderer_scheme" where
  "drawLine r start endp style =
     (let r1 = incrementDrawCall r
      in r1\<lparr>sink := sink r1 @ [OnDrawLine start endp style]\<rparr>)"

definition drawPolygon ::
  "('t, 'a, 'm) BaseRenderer_scheme \<Rightarrow> 'a FixedVector2 list \<Rightarrow> 'a ShapeStyle
     \<Rightarrow> ('t, 'a, 'm) BaseRenderer_scheme" where
  "drawPolygon r vs style =
     (let r1 = incrementDrawCall r;
          r2 = r1\<lparr>statistics := (statistics r1)\<lparr>vertices := vertices (statistics r1) + length vs\<rparr>\<rparr>;
          r3 = r2\<lparr>statistics := (statistics r2)\<lparr>triangles :=
                    triangles (statistics r2) + nat (max 0 (int (length vs) - 2))\<rparr>\<rparr>
      in r3\<lparr>sink := sink r3 @ [OnDrawPolygon vs style]\<rparr>)"

definition drawTextureRegion ::
  "('t, 'a, 'm) BaseRenderer_scheme \<Rightarrow> 't \<Rightarrow> 'a FixedRect \<Rightarrow> 'a FixedRect
     \<Rightarrow> 'a TextureStyle option \<Rightarrow> ('t, 'a, 'm) BaseRenderer_scheme" where
  "drawTextureRegion r tex srcRect destRect style =
     (let r1 = incrementDrawCall r;
          r2 = incrementTextureBinding r1
      in r2\<lparr>sink := sink r2 @ [OnDrawTextureRegion tex srcRect destRect style]\<rparr>)"

text \<open>The default \<^verbatim>\<open>screenToWorld\<close> of \<^verbatim>\<open>BaseRenderer\<close>, which subclasses
  override.\<close>

definition BaseRenderer_screenToWorld :: "'a FixedVector2 \<Rightarrow> error + 'a FixedVector2" where
  "BaseRenderer_screenToWorld screenPos = Inr screenPos"

text \<open>\<^verbatim>\<open>getViewBounds\<close> calls \<^verbatim>\<open>this.screenToWorld\<close>, which is dispatched on
  the class of the renderer: the implementation in force is the first argument.  The corner
  \<^verbatim>\<open>viewport.x + viewport.width\<close> is a sum of JavaScript doubles in the code and
  an exact sum here; the two agree wherever the double sum does not round.\<close>

definition getViewBounds ::
  "('a::linordered_field FixedVector2 \<Rightarrow> error + 'a FixedVector2) \<Rightarrow> ('t, 'a, 'm) BaseRenderer_scheme
     \<Rightarrow> error + 'a FixedRect" where
  "getViewBounds screenToWorld_impl r =
     bind_err (screenToWorld_impl
                 (FixedVector2 (viewport_x (viewport r)) (viewport_y (viewport r))))
       (\<lambda>topLeft.
          bind_err (screenToWorld_impl
                      (FixedVector2 (viewport_x (viewport r) + viewport_width (viewport r))
                                    (viewport_y (viewport r) + viewport_height (viewport r))))
            (\<lambda>bottomRight.
               Inr (FixedRect (x_of topLeft) (y_of topLeft)
                      (x_of bottomRight - x_of topLeft)
                      (y_of bottomRight - y_of topLeft))))"

section \<open>Sprites and the camera (BaseGameRenderer)\<close>

record 'a CameraConfig =
  position :: "'a FixedVector2"
  zoom :: 'a
  rotation :: 'a
  bounds :: "'a FixedRect option"
  followTarget :: "'a FixedVector2 option"
  followSpeed :: "'a option"
  deadZone :: "'a FixedRect option"

record ('t, 'a) BaseGameRenderer = "('t, 'a) BaseRenderer" +
  camera :: "'a CameraConfig"

text \<open>The field initialisers of the two classes.\<close>

definition new_BaseGameRenderer :: "('t, 'a::linordered_field) BaseGameRenderer" where
  "new_BaseGameRenderer =
     \<lparr> statistics = \<lparr> drawCalls = 0, triangles = 0, vertices = 0, textureBinds = 0 \<rparr>,
       viewport = \<lparr> viewport_x = 0, viewport_y = 0, viewport_width = 800, viewport_height = 600 \<rparr>,
       sink = [],
       camera = \<lparr> position = FixedVector2 0 0, zoom = 1, rotation = 0, bounds = None,
                  followTarget = None, followSpeed = None, deadZone = None \<rparr> \<rparr>"

definition drawSpriteFromAtlas ::
  "('t, 'a, 'm) BaseRenderer_scheme \<Rightarrow> 't \<Rightarrow> 'a FixedRect \<Rightarrow> 'a FixedVector2
     \<Rightarrow> 'a TextureStyle option \<Rightarrow> ('t, 'a, 'm) BaseRenderer_scheme" where
  "drawSpriteFromAtlas r tex srcRect pos style =
     (let destRect = FixedRect (x_of pos) (y_of pos) (rect_width srcRect) (rect_height srcRect)
      in drawTextureRegion r tex srcRect destRect style)"

definition drawSprite ::
  "('t, 'a::floor_ceiling, 'm) BaseRenderer_scheme \<Rightarrow> ('t, 'a) SpriteAnimation \<Rightarrow> 'a FixedVector2
     \<Rightarrow> 'a \<Rightarrow> 'a TextureStyle option \<Rightarrow> ('t, 'a, 'm) BaseRenderer_scheme outcome" where
  "drawSprite r animation pos currentTime style =
     (case getCurrentAnimationFrame animation currentTime of
        Inl e \<Rightarrow> Raised e r
      | Inr None \<Rightarrow> Returned r
      | Inr (Some frame) \<Rightarrow>
          Returned (drawSpriteFromAtlas r (texture frame) (sourceRect frame) pos style))"

definition setCamera ::
  "('t, 'a, 'm) BaseGameRenderer_scheme \<Rightarrow> 'a CameraConfig \<Rightarrow> ('t, 'a, 'm) BaseGameRenderer_scheme" where
  "setCamera r config = r\<lparr>camera := config\<rparr>"

definition getCamera :: "('t, 'a, 'm) BaseGameRenderer_scheme \<Rightarrow> 'a CameraConfig" where
  "getCamera r = camera r"

text \<open>
  The rotation of the camera goes through JavaScript floating point:
  \<^verbatim>\<open>new Fixed(Math.cos(angle.toNumber()))\<close> and the same for the sine.  These two
  functions from scalars to scalars are the arguments \<open>fcos\<close> and \<open>fsin\<close>.
\<close>

definition worldToScreen ::
  "('a::linordered_field \<Rightarrow> 'a) \<Rightarrow> ('a \<Rightarrow> 'a) \<Rightarrow> ('t, 'a, 'm) BaseGameRenderer_scheme \<Rightarrow> 'a FixedVector2
     \<Rightarrow> 'a FixedVector2" where
  "worldToScreen fcos fsin r worldPos =
     (let cameraRelative = vec_subtract worldPos (position (camera r));
          scaled = FixedVector2 (x_of cameraRelative * zoom (camera r))
                                (y_of cameraRelative * zoom (camera r));
          rotated =
            (if rotation (camera r) \<noteq> 0 then
               (let angle = rotation (camera r);
                    c = fcos angle;
                    s = fsin angle
                in FixedVector2 (x_of scaled * c - y_of scaled * s)
                                (x_of scaled * s + y_of scaled * c))
             else scaled);
          screenCenter = FixedVector2 (viewport_width (viewport r) / 2)
                                      (viewport_height (viewport r) / 2)
      in vec_add screenCenter rotated)"

definition screenToWorld ::
  "('a::linordered_field \<Rightarrow> 'a) \<Rightarrow> ('a \<Rightarrow> 'a) \<Rightarrow> ('t, 'a, 'm) BaseGameRenderer_scheme \<Rightarrow> 'a FixedVector2
     \<Rightarrow> error + 'a FixedVector2" where
  "screenToWorld fcos fsin r screenPos =
     (let screenCenter = FixedVector2 (viewport_width (viewport r) / 2)
                                      (viewport_height (viewport r) / 2);
          cameraRelative = vec_subtract screenPos screenCenter;
          unrotated =
            (if rotation (camera r) \<noteq> 0 then
               (let angle = - rotation (camera r);
                    c = fcos angle;
                    s = fsin angle
                in FixedVector2 (x_of cameraRelative * c - y_of cameraRelative * s)
                                (x_of cameraRelative * s + y_of cameraRelative * c))
             else cameraRelative)
      in bind_err (divide_fixed (x_of unrotated) (zoom (camera r)))
           (\<lambda>ux. bind_err (divide_fixed (y_of unrotated) (zoom (camera r)))
              (\<lambda>uy. Inr (vec_add (FixedVector2 ux uy) (position (camera r))))))"

section \<open>Debug geometry (BaseDebugRenderer)\<close>

text \<open>
  Of the fields of \<^verbatim>\<open>DebugConfig\<close>, the record has the two that \<^verbatim>\<open>drawGrid\<close>
  and \<^verbatim>\<open>drawArrow\<close> read.
\<close>

record 'a DebugConfig =
  showGrid :: bool
  axisLength :: 'a

record ('t, 'a) BaseDebugRenderer = "('t, 'a) BaseRenderer" +
  debugConfig :: "'a DebugConfig"

text \<open>The two fields of \<^verbatim>\<open>DEFAULT_DEBUG_CONFIG\<close> that the record has.\<close>

definition DEFAULT_DEBUG_CONFIG :: "'a::linordered_field DebugConfig" where
  "DEFAULT_DEBUG_CONFIG = \<lparr> showGrid = True, axisLength = 2 \<rparr>"

text \<open>A renderer as its field initialisers leave it, with the debug configuration as an
  argument: the class starts from \<^verbatim>\<open>DEFAULT_DEBUG_CONFIG\<close>, and
  \<^verbatim>\<open>setDebugConfig\<close> replaces the fields it is given.\<close>

definition new_BaseDebugRenderer :: "'a::linordered_field DebugConfig \<Rightarrow> ('t, 'a) BaseDebugRenderer" where
  "new_BaseDebugRenderer config =
     \<lparr> statistics = \<lparr> drawCalls = 0, triangles = 0, vertices = 0, textureBinds = 0 \<rparr>,
       viewport = \<lparr> viewport_x = 0, viewport_y = 0, viewport_width = 800, viewport_height = 600 \<rparr>,
       sink = [],
       debugConfig = config \<rparr>"

text \<open>The style of the grid line with the given count: \<^verbatim>\<open>isMainLine\<close> needs a major
  style, an interval that is truthy (present and not zero) and a count the interval
  divides.\<close>

definition grid_line_style :: "'a GridStyle \<Rightarrow> nat \<Rightarrow> 'a LineStyle" where
  "grid_line_style style lineCount =
     (case (majorLineStyle style, majorLineInterval style) of
        (Some major, Some interval) \<Rightarrow>
          if interval \<noteq> 0 \<and> int lineCount mod interval = 0 then major else lineStyle style
      | _ \<Rightarrow> lineStyle style)"

text \<open>The two loops of \<^verbatim>\<open>drawGrid\<close>.  Neither has a bound of its own on the number of
  rounds, so \<open>None\<close> stands for a loop that never ends.\<close>

partial_function (option) vertical_lines ::
  "'a::linordered_field \<Rightarrow> 'a GridStyle \<Rightarrow> 'a FixedRect \<Rightarrow> 'a \<Rightarrow> 'a \<Rightarrow> nat
     \<Rightarrow> ('t, 'a, 'm) BaseRenderer_scheme \<Rightarrow> ('t, 'a, 'm) BaseRenderer_scheme option" where
  "vertical_lines spacing style bnds endX x lineCount r =
     (if x \<le> endX then
        vertical_lines spacing style bnds endX (x + spacing) (lineCount + 1)
          (drawLine r (FixedVector2 x (rect_y bnds))
                      (FixedVector2 x (rect_y bnds + rect_height bnds))
                      (grid_line_style style lineCount))
      else Some r)"

partial_function (option) horizontal_lines ::
  "'a::linordered_field \<Rightarrow> 'a GridStyle \<Rightarrow> 'a FixedRect \<Rightarrow> 'a \<Rightarrow> 'a \<Rightarrow> nat
     \<Rightarrow> ('t, 'a, 'm) BaseRenderer_scheme \<Rightarrow> ('t, 'a, 'm) BaseRenderer_scheme option" where
  "horizontal_lines spacing style bnds endY y lineCount r =
     (if y \<le> endY then
        horizontal_lines spacing style bnds endY (y + spacing) (lineCount + 1)
          (drawLine r (FixedVector2 (rect_x bnds) y)
                      (FixedVector2 (rect_x bnds + rect_width bnds) y)
                      (grid_line_style style lineCount))
      else Some r)"

text \<open>\<open>None\<close>: the call does not return.  \<open>Some (Raised e r)\<close>: it raises.
  \<open>Some (Returned r)\<close>: it returns.\<close>

definition drawGrid ::
  "('a::floor_ceiling FixedVector2 \<Rightarrow> error + 'a FixedVector2)
     \<Rightarrow> ('t, 'a, 'm) BaseDebugRenderer_scheme \<Rightarrow> 'a \<Rightarrow> 'a GridStyle
     \<Rightarrow> ('t, 'a, 'm) BaseDebugRenderer_scheme outcome option" where
  "drawGrid screenToWorld_impl r spacing style =
     (if \<not> showGrid (debugConfig r) then Some (Returned r)
      else
        case getViewBounds screenToWorld_impl r of
          Inl e \<Rightarrow> Some (Raised e r)
        | Inr bnds \<Rightarrow>
            (case divide_fixed (rect_x bnds) spacing of
               Inl e \<Rightarrow> Some (Raised e r)
             | Inr qx \<Rightarrow>
                 (case divide_fixed (rect_y bnds) spacing of
                    Inl e \<Rightarrow> Some (Raised e r)
                  | Inr qy \<Rightarrow>
                      (let startX = floor_fixed qx * spacing;
                           startY = floor_fixed qy * spacing;
                           endX = rect_x bnds + rect_width bnds;
                           endY = rect_y bnds + rect_height bnds
                       in Option.bind (vertical_lines spacing style bnds endX startX 0 r)
                            (\<lambda>r1. Option.bind
                                     (horizontal_lines spacing style bnds endY startY 0 r1)
                                     (\<lambda>r2. Some (Returned r2)))))))"

text \<open>
  \<^verbatim>\<open>FixedVector2.normalize\<close> belongs to the external package; what it does with the
  zero vector is not fixed by the sources.  It is the first argument of \<open>drawArrow\<close>, and it
  may raise.  The head size is optional; a \<^verbatim>\<open>Fixed\<close> object is truthy whatever its
  value, so the default is taken only when the argument is absent.
\<close>

definition drawArrow ::
  "('a::linordered_field FixedVector2 \<Rightarrow> error + 'a FixedVector2)
     \<Rightarrow> ('t, 'a, 'm) BaseDebugRenderer_scheme \<Rightarrow> 'a FixedVector2 \<Rightarrow> 'a FixedVector2 \<Rightarrow> Color
     \<Rightarrow> 'a option \<Rightarrow> ('t, 'a, 'm) BaseDebugRenderer_scheme outcome" where
  "drawArrow normalize_impl r start endp col headSize =
     (case (case headSize of
              Some h \<Rightarrow> Inr h
            | None \<Rightarrow> divide_fixed (axisLength (debugConfig r)) 10) of
        Inl e \<Rightarrow> Raised e r
      | Inr arrowHeadSize \<Rightarrow>
          (let lineSt = \<lparr> color = col, thickness = 1, dashPattern = None \<rparr>;
               r1 = drawLine r start endp lineSt
           in case normalize_impl (vec_subtract endp start) of
                Inl e \<Rightarrow> Raised e r1
              | Inr direction \<Rightarrow>
                  (let perpendicular = FixedVector2 (- y_of direction) (x_of direction);
                       headBase = vec_subtract endp (vec_multiply direction arrowHeadSize)
                   in case divide_fixed arrowHeadSize 2 of
                        Inl e \<Rightarrow> Raised e r1
                      | Inr half \<Rightarrow>
                          (let headLeft = vec_add headBase (vec_multiply perpendicular half);
                               headRight = vec_subtract headBase (vec_multiply perpendicular half);
                               r2 = drawLine r1 endp headLeft lineSt;
                               r3 = drawLine r2 endp headRight lineSt
                           in Returned r3))))"

text \<open>
  Two implementations that \<^verbatim>\<open>normalize\<close> can have, over the reals.  Both divide the
  vector by its magnitude; the first returns the zero vector when the magnitude is zero, the
  second divides all the same, so that the division raises.
\<close>

definition normalize_guarded :: "real FixedVector2 \<Rightarrow> error + real FixedVector2" where
  "normalize_guarded v =
     (let mag = sqrt (x_of v * x_of v + y_of v * y_of v)
      in if mag = 0 then Inr (FixedVector2 0 0)
         else bind_err (divide_fixed (x_of v) mag)
                (\<lambda>nx. bind_err (divide_fixed (y_of v) mag) (\<lambda>ny. Inr (FixedVector2 nx ny))))"

definition normalize_unguarded :: "real FixedVector2 \<Rightarrow> error + real FixedVector2" where
  "normalize_unguarded v =
     (let mag = sqrt (x_of v * x_of v + y_of v * y_of v)
      in bind_err (divide_fixed (x_of v) mag)
           (\<lambda>nx. bind_err (divide_fixed (y_of v) mag) (\<lambda>ny. Inr (FixedVector2 nx ny))))"

text \<open>The x-coordinates of the vertical lines among a list of hook calls: the lines whose
  two end points have the same x-coordinate, in the order of the calls.\<close>

definition vertical_xs :: "('t, 'a) primitive list \<Rightarrow> 'a list" where
  "vertical_xs prims =
     concat (map (\<lambda>p. case p of
                          OnDrawLine a b st \<Rightarrow> (if x_of a = x_of b then [x_of a] else [])
                        | _ \<Rightarrow> []) prims)"

section \<open>Joint limits (BasePhysicsDebugRenderer)\<close>

text \<open>Of \<^verbatim>\<open>PhysicsDebugConfig\<close>, the colour that \<^verbatim>\<open>drawJointLimits\<close> reads.\<close>

record PhysicsDebugColors =
  jointLimit :: Color

record PhysicsDebugConfig =
  colors :: PhysicsDebugColors

record ('t, 'a) BasePhysicsDebugRenderer = "('t, 'a) BaseDebugRenderer" +
  physicsConfig :: PhysicsDebugConfig

text \<open>The loop \<^verbatim>\<open>for (let i = 0; i <= segments; i++)\<close>, which pushes one point per
  round.\<close>

function joint_limit_points ::
  "('a::linordered_field \<Rightarrow> 'a) \<Rightarrow> ('a \<Rightarrow> 'a) \<Rightarrow> 'a FixedVector2 \<Rightarrow> 'a \<Rightarrow> 'a \<Rightarrow> 'a \<Rightarrow> nat \<Rightarrow> nat
     \<Rightarrow> 'a FixedVector2 list \<Rightarrow> 'a FixedVector2 list" where
  "joint_limit_points fcos fsin center minAngle angleStep radius segments i points =
     (if i \<le> segments then
        (let angle = minAngle + angleStep * of_nat i;
             point = vec_add center (FixedVector2 (fcos angle * radius) (fsin angle * radius))
         in joint_limit_points fcos fsin center minAngle angleStep radius segments (i + 1)
              (points @ [point]))
      else points)"
  by pat_completeness auto
termination
  by (relation "measure (\<lambda>(fcos, fsin, center, minAngle, angleStep, radius, segments, i, points).
                  Suc segments - i)") auto

declare joint_limit_points.simps [simp del]

definition drawJointLimits ::
  "('a::linordered_field \<Rightarrow> 'a) \<Rightarrow> ('a \<Rightarrow> 'a) \<Rightarrow> ('t, 'a, 'm) BasePhysicsDebugRenderer_scheme
     \<Rightarrow> 'a FixedVector2 \<Rightarrow> 'a \<Rightarrow> 'a \<Rightarrow> 'a
     \<Rightarrow> ('t, 'a, 'm) BasePhysicsDebugRenderer_scheme outcome" where
  "drawJointLimits fcos fsin r center minAngle maxAngle radius =
     (let segments = 16;
          angleRange = maxAngle - minAngle
      in case divide_fixed angleRange (of_nat segments) of
           Inl e \<Rightarrow> Raised e r
         | Inr angleStep \<Rightarrow>
             (let points = joint_limit_points fcos fsin center minAngle angleStep radius
                             segments 0 [center];
                  limitColor = jointLimit (colors (physicsConfig r))
              in Returned
                   (drawPolygon r points
                      \<lparr> fillColor = Some (Color (red limitColor) (green limitColor)
                                             (blue limitColor) (3 / 10)),
                        strokeColor = Some limitColor,
                        strokeThickness = Some 1,
                        shapeDashPattern = None \<rparr>)))"

section \<open>Basic facts\<close>

lemma bind_err_Inr [simp]: "bind_err (Inr v) f = f v"
  by (simp add: bind_err_def)

lemma bind_err_Inl [simp]: "bind_err (Inl e) f = Inl e"
  by (simp add: bind_err_def)

lemma divide_fixed_nonzero [simp]: "b \<noteq> 0 \<Longrightarrow> divide_fixed a b = Inr (a / b)"
  by (simp add: divide_fixed_def)

lemma divide_fixed_zero [simp]: "divide_fixed a 0 = Inl DivisionByZero"
  by (simp add: divide_fixed_def)

lemma floor_numeral_divide [simp]:
  "\<lfloor>numeral m / numeral n :: 'a::floor_ceiling\<rfloor> = numeral m div numeral n"
  using floor_divide_of_int_eq[of "numeral m" "numeral n", where ?'a = 'a] by simp

lemma floor_neg_numeral_divide [simp]:
  "\<lfloor>- (numeral m / numeral n) :: 'a::floor_ceiling\<rfloor> = - numeral m div numeral n"
  using floor_divide_of_int_eq[of "- numeral m" "numeral n", where ?'a = 'a] by simp

lemma sink_drawLine [simp]: "sink (drawLine r a b st) = sink r @ [OnDrawLine a b st]"
  by (simp add: drawLine_def incrementDrawCall_def Let_def)

lemma drawCalls_drawLine [simp]:
  "drawCalls (statistics (drawLine r a b st)) = Suc (drawCalls (statistics r))"
  by (simp add: drawLine_def incrementDrawCall_def Let_def)

section \<open>Frame resolution\<close>

lemma total_duration_sum:
  "speed \<noteq> 0 \<Longrightarrow> total_duration speed fs acc = Inr (acc + effective_total speed fs)"
  by (induction fs arbitrary: acc) (simp_all add: add.assoc)

lemma effective_total_nonneg:
  fixes speed :: "'a::linordered_field"
  shows "0 < speed \<Longrightarrow> \<forall>f \<in> set fs. 0 \<le> duration f \<Longrightarrow> 0 \<le> effective_total speed fs"
  by (induction fs) simp_all

lemma effective_total_take_le:
  fixes speed :: "'a::linordered_field"
  assumes "0 < speed" and "\<forall>f \<in> set fs. 0 \<le> duration f"
  shows "effective_total speed (take n fs) \<le> effective_total speed fs"
proof -
  have "effective_total speed fs
      = effective_total speed (take n fs) + effective_total speed (drop n fs)"
    by (metis append_take_drop_id map_append sum_list_append)
  moreover have "0 \<le> effective_total speed (drop n fs)"
    using assms by (intro effective_total_nonneg) (auto dest: in_set_dropD)
  ultimately show ?thesis by simp
qed

text \<open>With durations that are not negative and a positive speed, the walk returns the
  frame whose half-open interval holds the time.\<close>

lemma frame_walk_interval:
  fixes speed :: "'a::linordered_field"
  assumes "0 < speed" and "\<forall>f \<in> set fs. 0 \<le> duration f" and "k < length fs"
    and "acc + effective_total speed (take k fs) \<le> t"
    and "t < acc + effective_total speed (take (Suc k) fs)"
  shows "frame_walk speed t fs acc = Inr (Some (fs ! k))"
  using assms
proof (induction fs arbitrary: k acc)
  case Nil
  then show ?case by simp
next
  case (Cons f fs)
  show ?case
  proof (cases k)
    case 0
    with Cons.prems show ?thesis by simp
  next
    case (Suc j)
    have nn: "0 \<le> effective_total speed (take j fs)"
      using Cons.prems(1,2) by (intro effective_total_nonneg) (auto dest: in_set_takeD)
    from Cons.prems(4) Suc
    have le: "acc + duration f / speed + effective_total speed (take j fs) \<le> t"
      by (simp add: add.assoc)
    with nn have notlt: "\<not> t < acc + duration f / speed" by simp
    from Cons.prems(5) Suc
    have lt: "t < acc + duration f / speed + effective_total speed (take (Suc j) fs)"
      by (simp add: add.assoc)
    have "frame_walk speed t fs (acc + duration f / speed) = Inr (Some (fs ! j))"
      using Cons.IH[of j "acc + duration f / speed"] Cons.prems(1,2,3) Suc le lt by simp
    with notlt Cons.prems(1) Suc show ?thesis by simp
  qed
qed

lemma floor_mod_bounds:
  fixes t d :: "'a::floor_ceiling"
  assumes "0 < d"
  shows "0 \<le> t - of_int \<lfloor>t / d\<rfloor> * d" and "t - of_int \<lfloor>t / d\<rfloor> * d < d"
proof -
  have "of_int \<lfloor>t / d\<rfloor> * d \<le> t"
    using of_int_floor_le[of "t / d"] pos_le_divide_eq[OF assms, of "of_int \<lfloor>t / d\<rfloor>" t]
    by blast
  then show "0 \<le> t - of_int \<lfloor>t / d\<rfloor> * d" by simp
  have "t / d < of_int \<lfloor>t / d\<rfloor> + 1" using floor_correct[of "t / d"] by simp
  then have "t < (of_int \<lfloor>t / d\<rfloor> + 1) * d"
    using pos_divide_less_eq[OF assms, of t "of_int \<lfloor>t / d\<rfloor> + 1"] by blast
  then show "t - of_int \<lfloor>t / d\<rfloor> * d < d" by (simp add: algebra_simps)
qed

text \<open>
  C2.  A non-looping animation of three frames, each of duration 1, with playback speed 1
  (as \<^verbatim>\<open>createAnimation\<close> builds it): at time 2.5 the third frame is returned, at time
  0.5 the first, and at time 1.0, which is exactly the upper bound of the first frame,
  the second.  In general, for a non-looping animation with a positive speed and durations
  that are not negative, frame \<open>k\<close> is returned at every time from the sum of the effective
  durations before it (included) up to that sum plus its own effective duration (excluded).
\<close>

theorem three_frames_resolve:
  fixes r0 r1 r2 :: "'a::floor_ceiling FixedRect"
    and animation :: "('t, 'a) SpriteAnimation"
  shows
  "getCurrentAnimationFrame (createAnimation nm tex [r0, r1, r2] 1 False) (5 / 2)
     = Inr (Some \<lparr> texture = tex, sourceRect = r2, duration = 1, offset = None \<rparr>)
   \<and> getCurrentAnimationFrame (createAnimation nm tex [r0, r1, r2] 1 False) (1 / 2)
     = Inr (Some \<lparr> texture = tex, sourceRect = r0, duration = 1, offset = None \<rparr>)
   \<and> getCurrentAnimationFrame (createAnimation nm tex [r0, r1, r2] 1 False) 1
     = Inr (Some \<lparr> texture = tex, sourceRect = r1, duration = 1, offset = None \<rparr>)
   \<and> (\<not> loop animation \<and> 0 < playbackSpeed animation
        \<and> (\<forall>f \<in> set (frames animation). 0 \<le> duration f)
        \<and> k < length (frames animation)
        \<and> effective_total (playbackSpeed animation) (take k (frames animation)) \<le> t
        \<and> t < effective_total (playbackSpeed animation) (take (Suc k) (frames animation))
      \<longrightarrow> getCurrentAnimationFrame animation t = Inr (Some (frames animation ! k)))"
proof -
  have concrete:
    "getCurrentAnimationFrame (createAnimation nm tex [r0, r1, r2] 1 False) (5 / 2)
       = Inr (Some \<lparr> texture = tex, sourceRect = r2, duration = 1, offset = None \<rparr>)
     \<and> getCurrentAnimationFrame (createAnimation nm tex [r0, r1, r2] 1 False) (1 / 2)
       = Inr (Some \<lparr> texture = tex, sourceRect = r0, duration = 1, offset = None \<rparr>)
     \<and> getCurrentAnimationFrame (createAnimation nm tex [r0, r1, r2] 1 False) 1
       = Inr (Some \<lparr> texture = tex, sourceRect = r1, duration = 1, offset = None \<rparr>)"
    by (simp add: getCurrentAnimationFrame_def createAnimation_def walk_or_last_def)
  have general: "getCurrentAnimationFrame animation t = Inr (Some (frames animation ! k))"
    if nl: "\<not> loop animation" and sp: "0 < playbackSpeed animation"
      and nn: "\<forall>f \<in> set (frames animation). 0 \<le> duration f"
      and k: "k < length (frames animation)"
      and lo: "effective_total (playbackSpeed animation) (take k (frames animation)) \<le> t"
      and hi: "t < effective_total (playbackSpeed animation) (take (Suc k) (frames animation))"
  proof -
    define d where "d = effective_total (playbackSpeed animation) (frames animation)"
    have total: "total_duration (playbackSpeed animation) (frames animation) 0 = Inr d"
      using sp by (simp add: total_duration_sum d_def)
    have "0 \<le> effective_total (playbackSpeed animation) (take k (frames animation))"
      using sp nn by (intro effective_total_nonneg) (auto dest: in_set_takeD)
    with lo have t0: "0 \<le> t" by simp
    have "effective_total (playbackSpeed animation) (take (Suc k) (frames animation)) \<le> d"
      unfolding d_def using sp nn by (rule effective_total_take_le)
    with hi have td: "t < d" by simp
    have walk: "frame_walk (playbackSpeed animation) t (frames animation) 0
                  = Inr (Some (frames animation ! k))"
      using frame_walk_interval[OF sp nn k, of 0 t] lo hi by simp
    from k have ne: "frames animation \<noteq> []" by auto
    show ?thesis
      using ne total nl t0 td walk
      by (simp add: getCurrentAnimationFrame_def walk_or_last_def)
  qed
  from concrete general show ?thesis by blast
qed

theorem three_frames_resolve_witness:
  "\<not> loop (createAnimation ''walk'' () [FixedRect 0 0 16 16, FixedRect 16 0 16 16,
              FixedRect 32 0 16 16] (1::rat) False)
   \<and> (0::rat) < playbackSpeed (createAnimation ''walk'' () [FixedRect 0 0 16 16,
              FixedRect 16 0 16 16, FixedRect 32 0 16 16] (1::rat) False)
   \<and> list_all (\<lambda>f. 0 \<le> duration f)
         (frames (createAnimation ''walk'' () [FixedRect 0 0 16 16,
              FixedRect 16 0 16 16, FixedRect 32 0 16 16] (1::rat) False))
   \<and> getCurrentAnimationFrame (createAnimation ''walk'' () [FixedRect 0 0 16 16,
              FixedRect 16 0 16 16, FixedRect 32 0 16 16] (1::rat) False) 1
       = Inr (Some \<lparr> texture = (), sourceRect = FixedRect 16 0 16 16, duration = 1,
                      offset = None \<rparr>)"
proof -
  define a :: "(unit, rat) SpriteAnimation" where
    "a = createAnimation ''walk'' () [FixedRect 0 0 16 16, FixedRect 16 0 16 16,
           FixedRect 32 0 16 16] 1 False"
  have h: "\<not> loop a \<and> 0 < playbackSpeed a \<and> (\<forall>f \<in> set (frames a). 0 \<le> duration f)
      \<and> Suc 0 < length (frames a)
      \<and> effective_total (playbackSpeed a) (take (Suc 0) (frames a)) \<le> 1
      \<and> 1 < effective_total (playbackSpeed a) (take (Suc (Suc 0)) (frames a))"
    by (simp add: a_def createAnimation_def)
  have "getCurrentAnimationFrame a 1 = Inr (Some (frames a ! Suc 0))"
    using three_frames_resolve[where animation = a and k = "Suc 0" and t = 1,
        THEN conjunct2, THEN conjunct2, THEN conjunct2] h by blast
  then have "getCurrentAnimationFrame a 1
       = Inr (Some \<lparr> texture = (), sourceRect = FixedRect 16 0 16 16, duration = 1,
                      offset = None \<rparr>)"
    by (simp add: a_def createAnimation_def)
  with h show ?thesis unfolding a_def by (simp add: list_all_iff)
qed

text \<open>
  C3.  A looping animation whose total effective duration \<open>d\<close> is positive resolves time
  \<open>t\<close>, negative or not, as the frame walk resolves the wrapped time
  \<open>t - floor (t / d) * d\<close>, which lies in the interval from 0 (included) to \<open>d\<close>
  (excluded); this is also what the non-looping animation with the same frames returns at
  the wrapped time.  The looping animation of three frames of duration 1 returns its first
  frame at time 3.5.
\<close>

theorem looping_time_wraps:
  fixes animation :: "('t, 'a::floor_ceiling) SpriteAnimation"
  assumes "loop animation"
    and "0 < effective_total (playbackSpeed animation) (frames animation)"
  shows
    "getCurrentAnimationFrame animation t
       = walk_or_last animation
           (t - of_int \<lfloor>t / effective_total (playbackSpeed animation) (frames animation)\<rfloor>
                  * effective_total (playbackSpeed animation) (frames animation))
     \<and> getCurrentAnimationFrame animation t
       = getCurrentAnimationFrame (animation\<lparr>loop := False\<rparr>)
           (t - of_int \<lfloor>t / effective_total (playbackSpeed animation) (frames animation)\<rfloor>
                  * effective_total (playbackSpeed animation) (frames animation))
     \<and> 0 \<le> t - of_int \<lfloor>t / effective_total (playbackSpeed animation) (frames animation)\<rfloor>
                  * effective_total (playbackSpeed animation) (frames animation)
     \<and> t - of_int \<lfloor>t / effective_total (playbackSpeed animation) (frames animation)\<rfloor>
                  * effective_total (playbackSpeed animation) (frames animation)
         < effective_total (playbackSpeed animation) (frames animation)
     \<and> getCurrentAnimationFrame (createAnimation nm tex [r0, r1, r2] (1::'a) True) (7 / 2)
       = Inr (Some \<lparr> texture = tex, sourceRect = r0, duration = 1, offset = None \<rparr>)"
proof -
  define d where "d = effective_total (playbackSpeed animation) (frames animation)"
  have dpos: "0 < d" using assms(2) by (simp add: d_def)
  have speed: "playbackSpeed animation \<noteq> 0"
    using assms(2) by auto
  have nonempty: "frames animation \<noteq> []"
    using assms(2) by auto
  have total: "total_duration (playbackSpeed animation) (frames animation) 0 = Inr d"
    using speed by (simp add: total_duration_sum d_def)
  have b1: "0 \<le> t - of_int \<lfloor>t / d\<rfloor> * d" and b2: "t - of_int \<lfloor>t / d\<rfloor> * d < d"
    using floor_mod_bounds[OF dpos] by blast+
  have g1: "getCurrentAnimationFrame animation t
       = walk_or_last animation (t - of_int \<lfloor>t / d\<rfloor> * d)"
    using assms(1) nonempty total dpos
    by (simp add: getCurrentAnimationFrame_def floor_fixed_def)
  have g2: "getCurrentAnimationFrame (animation\<lparr>loop := False\<rparr>) (t - of_int \<lfloor>t / d\<rfloor> * d)
       = walk_or_last animation (t - of_int \<lfloor>t / d\<rfloor> * d)"
    using nonempty total dpos b2
    by (simp add: getCurrentAnimationFrame_def walk_or_last_def cong: option.case_cong)
  have ex: "getCurrentAnimationFrame (createAnimation nm tex [r0, r1, r2] (1::'a) True) (7 / 2)
       = Inr (Some \<lparr> texture = tex, sourceRect = r0, duration = 1, offset = None \<rparr>)"
    by (simp add: getCurrentAnimationFrame_def createAnimation_def walk_or_last_def
        floor_fixed_def Let_def)
  from g1 g2 b1 b2 ex show ?thesis unfolding d_def by simp
qed

theorem looping_time_wraps_witness:
  "loop (createAnimation ''walk'' () [FixedRect 0 0 16 16, FixedRect 16 0 16 16,
           FixedRect 32 0 16 16] (1::rat) True)
   \<and> (0::rat) < effective_total
         (playbackSpeed (createAnimation ''walk'' () [FixedRect 0 0 16 16,
            FixedRect 16 0 16 16, FixedRect 32 0 16 16] (1::rat) True))
         (frames (createAnimation ''walk'' () [FixedRect 0 0 16 16,
            FixedRect 16 0 16 16, FixedRect 32 0 16 16] (1::rat) True))
   \<and> getCurrentAnimationFrame (createAnimation ''walk'' () [FixedRect 0 0 16 16,
           FixedRect 16 0 16 16, FixedRect 32 0 16 16] (1::rat) True) (- (7 / 2))
       = Inr (Some \<lparr> texture = (), sourceRect = FixedRect 32 0 16 16, duration = 1,
                      offset = None \<rparr>)"
proof -
  define a :: "(unit, rat) SpriteAnimation" where
    "a = createAnimation ''walk'' () [FixedRect 0 0 16 16, FixedRect 16 0 16 16,
           FixedRect 32 0 16 16] 1 True"
  have h1: "loop a" by (simp add: a_def createAnimation_def)
  have h2: "0 < effective_total (playbackSpeed a) (frames a)"
    by (simp add: a_def createAnimation_def)
  have d: "effective_total (playbackSpeed a) (frames a) = 3"
    by (simp add: a_def createAnimation_def)
  have "getCurrentAnimationFrame a (- (7 / 2))
      = walk_or_last a (- (7 / 2) - of_int \<lfloor>- (7 / 2) / effective_total (playbackSpeed a) (frames a)\<rfloor>
                  * effective_total (playbackSpeed a) (frames a))"
    by (rule looping_time_wraps[OF h1 h2, of "- (7 / 2)", THEN conjunct1])
  also have "\<dots> = walk_or_last a (5 / 2)"
    unfolding d by simp
  also have "\<dots> = Inr (Some \<lparr> texture = (), sourceRect = FixedRect 32 0 16 16, duration = 1,
                      offset = None \<rparr>)"
    by (simp add: a_def createAnimation_def walk_or_last_def)
  finally show ?thesis using h1 h2 unfolding a_def by blast
qed

text \<open>
  C10, as the code has it.  A non-looping animation with at least one frame, a positive
  playback speed and frame durations that are not negative returns its first frame at every
  negative time: there is no error and no wrap-around.  The code checks neither the sign of
  the speed nor that of the durations, and the two conditions are needed.
\<close>

theorem negative_time_first_frame:
  fixes animation :: "('t, 'a::floor_ceiling) SpriteAnimation"
  assumes "frames animation \<noteq> []" and "\<not> loop animation" and "t < 0"
    and "0 < playbackSpeed animation"
    and "\<forall>f \<in> set (frames animation). 0 \<le> duration f"
  shows "getCurrentAnimationFrame animation t = Inr (Some (frames animation ! 0))"
proof -
  define d where "d = effective_total (playbackSpeed animation) (frames animation)"
  have total: "total_duration (playbackSpeed animation) (frames animation) 0 = Inr d"
    using assms(4) by (simp add: total_duration_sum d_def)
  have dnn: "0 \<le> d" unfolding d_def using assms(4,5) by (rule effective_total_nonneg)
  obtain f fs where fs: "frames animation = f # fs"
    using assms(1) by (cases "frames animation") auto
  have "0 \<le> duration f / playbackSpeed animation"
    using assms(4,5) fs by simp
  with assms(3) have "t < 0 + duration f / playbackSpeed animation" by simp
  then have walk: "walk_or_last animation t = Inr (Some f)"
    using assms(4) fs by (simp add: walk_or_last_def)
  show ?thesis
    using assms(1,2,3) total dnn walk fs
    by (simp add: getCurrentAnimationFrame_def)
qed

theorem negative_time_first_frame_witness:
  "frames (createAnimation ''walk'' () [FixedRect 0 0 16 16, FixedRect 16 0 16 16,
              FixedRect 32 0 16 16] (1::rat) False) \<noteq> []
   \<and> \<not> loop (createAnimation ''walk'' () [FixedRect 0 0 16 16, FixedRect 16 0 16 16,
              FixedRect 32 0 16 16] (1::rat) False)
   \<and> (- 1 :: rat) < 0
   \<and> (0::rat) < playbackSpeed (createAnimation ''walk'' () [FixedRect 0 0 16 16,
              FixedRect 16 0 16 16, FixedRect 32 0 16 16] (1::rat) False)
   \<and> list_all (\<lambda>f. 0 \<le> duration f)
         (frames (createAnimation ''walk'' () [FixedRect 0 0 16 16,
              FixedRect 16 0 16 16, FixedRect 32 0 16 16] (1::rat) False))
   \<and> getCurrentAnimationFrame (createAnimation ''walk'' () [FixedRect 0 0 16 16,
              FixedRect 16 0 16 16, FixedRect 32 0 16 16] (1::rat) False) (- 1)
       = Inr (Some \<lparr> texture = (), sourceRect = FixedRect 0 0 16 16, duration = 1,
                      offset = None \<rparr>)"
proof -
  define a :: "(unit, rat) SpriteAnimation" where
    "a = createAnimation ''walk'' () [FixedRect 0 0 16 16, FixedRect 16 0 16 16,
           FixedRect 32 0 16 16] 1 False"
  have h1: "frames a \<noteq> []" and h2: "\<not> loop a" and h3: "(- 1 :: rat) < 0"
    and h4: "0 < playbackSpeed a" and h5: "\<forall>f \<in> set (frames a). 0 \<le> duration f"
    by (simp_all add: a_def createAnimation_def)
  have "getCurrentAnimationFrame a (- 1) = Inr (Some (frames a ! 0))"
    by (rule negative_time_first_frame[OF h1 h2 h3 h4 h5])
  then have "getCurrentAnimationFrame a (- 1)
       = Inr (Some \<lparr> texture = (), sourceRect = FixedRect 0 0 16 16, duration = 1,
                      offset = None \<rparr>)"
    by (simp add: a_def createAnimation_def)
  with h1 h2 h3 h4 h5 show ?thesis unfolding a_def by (simp add: list_all_iff)
qed

text \<open>The claim as stated ranges over every non-looping animation with frames.  With a
  playback speed of -1 and three frames of duration 1 the total duration is -3; the time
  -0.5 is greater, so the clamp returns the last frame and not the first.\<close>

theorem negative_time_counterexample:
  "getCurrentAnimationFrame
     ((createAnimation ''walk'' () [FixedRect 0 0 16 16, FixedRect 16 0 16 16,
          FixedRect 32 0 16 16] (1::rat) False)\<lparr>playbackSpeed := - 1\<rparr>) (- (1 / 2))
     = Inr (Some \<lparr> texture = (), sourceRect = FixedRect 32 0 16 16, duration = 1,
                    offset = None \<rparr>)
   \<and> getCurrentAnimationFrame
     ((createAnimation ''walk'' () [FixedRect 0 0 16 16, FixedRect 16 0 16 16,
          FixedRect 32 0 16 16] (1::rat) False)\<lparr>playbackSpeed := - 1\<rparr>) (- (1 / 2))
     \<noteq> Inr (Some (frames
           ((createAnimation ''walk'' () [FixedRect 0 0 16 16, FixedRect 16 0 16 16,
               FixedRect 32 0 16 16] (1::rat) False)\<lparr>playbackSpeed := - 1\<rparr>) ! 0))"
  by (simp add: getCurrentAnimationFrame_def createAnimation_def walk_or_last_def)

text \<open>
  C4, as the code has it.  For an animation without frames
  \<^verbatim>\<open>getCurrentAnimationFrame\<close> returns \<^verbatim>\<open>null\<close> and raises nothing, and
  \<^verbatim>\<open>drawSprite\<close> returns with the renderer unchanged: nothing is drawn and no error
  reaches the caller.
\<close>

theorem empty_animation_no_frame:
  assumes "frames animation = []"
  shows "getCurrentAnimationFrame animation t = Inr None
     \<and> drawSprite r animation pos t style = Returned r"
  using assms by (simp add: getCurrentAnimationFrame_def drawSprite_def)

theorem empty_animation_no_frame_witness:
  "frames (createAnimation ''idle'' () [] (1::rat) False) = []
   \<and> getCurrentAnimationFrame (createAnimation ''idle'' () [] (1::rat) False) 3 = Inr None
   \<and> drawSprite (new_BaseGameRenderer :: (unit, rat) BaseGameRenderer)
        (createAnimation ''idle'' () [] 1 False) (FixedVector2 0 0) 3 None
       = Returned new_BaseGameRenderer"
proof -
  have h: "frames (createAnimation ''idle'' () [] (1::rat) False) = []"
    by (simp add: createAnimation_def)
  from empty_animation_no_frame[OF h] h show ?thesis by blast
qed

text \<open>The claim as stated asks for an error.  On the animation that
  \<^verbatim>\<open>createAnimation\<close> builds from an empty list of rectangles the result is the value
  \<^verbatim>\<open>null\<close>, and \<^verbatim>\<open>drawSprite\<close> returns normally.\<close>

theorem empty_animation_counterexample:
  "getCurrentAnimationFrame (createAnimation ''idle'' () [] (1::rat) False) 0 = Inr None
   \<and> drawSprite (new_BaseGameRenderer :: (unit, rat) BaseGameRenderer)
        (createAnimation ''idle'' () [] 1 False) (FixedVector2 0 0) 0 None
       = Returned new_BaseGameRenderer"
  by (simp add: getCurrentAnimationFrame_def drawSprite_def createAnimation_def)

section \<open>Camera transform\<close>

text \<open>
  C1.  With a zoom that is not zero, \<^verbatim>\<open>screenToWorld\<close> undoes \<^verbatim>\<open>worldToScreen\<close>
  exactly when the rotation is zero, where no trigonometric value is used, and also when the
  values \<open>c\<close> and \<open>s\<close> delivered for the cosine and the sine of the rotation satisfy
  \<open>c * c + s * s = 1\<close> (the cosine being even and the sine odd).  With a rotation that
  is not zero, the round trip maps \<open>p\<close> to
  \<open>position + (p - position) * (c * c + s * s)\<close>: translation, scaling by the zoom and
  recentring cancel, and what is left of an error is the factor \<open>c * c + s * s\<close> of the
  approximated cosine and sine alone.
\<close>

theorem screen_world_round_trip:
  fixes r :: "('t, 'a::linordered_field, 'm) BaseGameRenderer_scheme"
  assumes "zoom (camera r) \<noteq> 0"
  shows
    "(rotation (camera r) = 0
        \<or> (fcos (- rotation (camera r)) = fcos (rotation (camera r))
           \<and> fsin (- rotation (camera r)) = - fsin (rotation (camera r))
           \<and> fcos (rotation (camera r)) * fcos (rotation (camera r))
               + fsin (rotation (camera r)) * fsin (rotation (camera r)) = 1)
        \<longrightarrow> screenToWorld fcos fsin r (worldToScreen fcos fsin r p) = Inr p)
     \<and> (rotation (camera r) \<noteq> 0
        \<and> fcos (- rotation (camera r)) = fcos (rotation (camera r))
        \<and> fsin (- rotation (camera r)) = - fsin (rotation (camera r))
        \<longrightarrow> screenToWorld fcos fsin r (worldToScreen fcos fsin r p)
            = Inr (vec_add
                     (vec_multiply (vec_subtract p (position (camera r)))
                        (fcos (rotation (camera r)) * fcos (rotation (camera r))
                          + fsin (rotation (camera r)) * fsin (rotation (camera r))))
                     (position (camera r))))"
proof -
  define z where "z = zoom (camera r)"
  define c where "c = fcos (rotation (camera r))"
  define s where "s = fsin (rotation (camera r))"
  obtain px py where p: "p = FixedVector2 px py" by (cases p)
  obtain cx cy where pos: "position (camera r) = FixedVector2 cx cy"
    by (cases "position (camera r)")
  have z: "z \<noteq> 0" using assms by (simp add: z_def)
  have unrot: "screenToWorld fcos fsin r (worldToScreen fcos fsin r p) = Inr p"
    if "rotation (camera r) = 0"
    using that z
    by (simp add: screenToWorld_def worldToScreen_def Let_def vec_add_def vec_subtract_def
        p pos z_def)
  have rot: "screenToWorld fcos fsin r (worldToScreen fcos fsin r p)
      = Inr (vec_add (vec_multiply (vec_subtract p (position (camera r))) (c * c + s * s))
               (position (camera r)))"
    if "rotation (camera r) \<noteq> 0"
      and "fcos (- rotation (camera r)) = fcos (rotation (camera r))"
      and "fsin (- rotation (camera r)) = - fsin (rotation (camera r))"
  proof -
    have ex: "(((px - cx) * z * c - (py - cy) * z * s) * c
               + ((px - cx) * z * s + (py - cy) * z * c) * s) / z
             = (px - cx) * (c * c + s * s)"
      using z by (simp add: field_simps)
    have ey: "(((px - cx) * z * s + (py - cy) * z * c) * c
               - ((px - cx) * z * c - (py - cy) * z * s) * s) / z
             = (py - cy) * (c * c + s * s)"
      using z by (simp add: field_simps)
    show ?thesis
      using that z
      by (simp add: screenToWorld_def worldToScreen_def Let_def vec_add_def vec_subtract_def
          vec_multiply_def p pos z_def[symmetric] c_def[symmetric] s_def[symmetric] ex ey)
  qed
  have exact: "screenToWorld fcos fsin r (worldToScreen fcos fsin r p) = Inr p"
    if "rotation (camera r) \<noteq> 0"
      and "fcos (- rotation (camera r)) = fcos (rotation (camera r))"
      and "fsin (- rotation (camera r)) = - fsin (rotation (camera r))"
      and "c * c + s * s = 1"
    using rot[OF that(1,2,3)] that(4)
    by (simp add: vec_add_def vec_subtract_def vec_multiply_def p pos)
  show ?thesis
    using unrot rot exact unfolding c_def s_def by blast
qed

theorem screen_world_round_trip_witness:
  "zoom (camera (setCamera (new_BaseGameRenderer :: (unit, real) BaseGameRenderer)
            \<lparr> position = FixedVector2 3 4, zoom = 2, rotation = 1, bounds = None,
              followTarget = None, followSpeed = None, deadZone = None \<rparr>)) \<noteq> 0
   \<and> rotation (camera (setCamera (new_BaseGameRenderer :: (unit, real) BaseGameRenderer)
            \<lparr> position = FixedVector2 3 4, zoom = 2, rotation = 1, bounds = None,
              followTarget = None, followSpeed = None, deadZone = None \<rparr>)) \<noteq> 0
   \<and> cos (- (1::real)) = cos 1 \<and> sin (- (1::real)) = - sin 1
   \<and> cos (1::real) * cos 1 + sin (1::real) * sin 1 = 1
   \<and> screenToWorld cos sin
        (setCamera (new_BaseGameRenderer :: (unit, real) BaseGameRenderer)
            \<lparr> position = FixedVector2 3 4, zoom = 2, rotation = 1, bounds = None,
              followTarget = None, followSpeed = None, deadZone = None \<rparr>)
        (worldToScreen cos sin
           (setCamera (new_BaseGameRenderer :: (unit, real) BaseGameRenderer)
              \<lparr> position = FixedVector2 3 4, zoom = 2, rotation = 1, bounds = None,
                followTarget = None, followSpeed = None, deadZone = None \<rparr>)
           (FixedVector2 5 7))
       = Inr (FixedVector2 5 7)
   \<and> zoom (camera (new_BaseGameRenderer :: (unit, real) BaseGameRenderer)) \<noteq> 0
   \<and> rotation (camera (new_BaseGameRenderer :: (unit, real) BaseGameRenderer)) = 0
   \<and> screenToWorld cos sin (new_BaseGameRenderer :: (unit, real) BaseGameRenderer)
        (worldToScreen cos sin (new_BaseGameRenderer :: (unit, real) BaseGameRenderer)
           (FixedVector2 5 7))
       = Inr (FixedVector2 5 7)"
proof -
  define R :: "(unit, real) BaseGameRenderer" where
    "R = setCamera new_BaseGameRenderer
            \<lparr> position = FixedVector2 3 4, zoom = 2, rotation = 1, bounds = None,
              followTarget = None, followSpeed = None, deadZone = None \<rparr>"
  define N :: "(unit, real) BaseGameRenderer" where "N = new_BaseGameRenderer"
  have z: "zoom (camera R) \<noteq> 0" and rho: "rotation (camera R) = 1"
    by (simp_all add: R_def setCamera_def)
  have trig: "cos (- (1::real)) = cos 1" "sin (- (1::real)) = - sin 1"
    "cos (1::real) * cos 1 + sin (1::real) * sin 1 = 1"
    by (simp_all add: sin_cos_squared_add3)
  have a: "screenToWorld cos sin R (worldToScreen cos sin R (FixedVector2 5 7))
             = Inr (FixedVector2 5 7)"
    using screen_world_round_trip[OF z, of cos sin "FixedVector2 5 7", THEN conjunct1]
      trig rho by simp
  have zn: "zoom (camera N) \<noteq> 0" and rn: "rotation (camera N) = 0"
    by (simp_all add: N_def new_BaseGameRenderer_def)
  have b: "screenToWorld cos sin N (worldToScreen cos sin N (FixedVector2 5 7))
             = Inr (FixedVector2 5 7)"
    using screen_world_round_trip[OF zn, of cos sin "FixedVector2 5 7", THEN conjunct1]
      rn by simp
  from z rho trig a zn rn b show ?thesis unfolding R_def N_def by simp
qed

text \<open>
  C7, as the code has it.  \<^verbatim>\<open>setCamera\<close> stores the configuration it is given, a zoom
  of zero included.  With a zoom of zero \<^verbatim>\<open>worldToScreen\<close> raises nothing and maps
  every point to the centre of the viewport; \<^verbatim>\<open>screenToWorld\<close> fails at the call with
  the division by zero of the scalar division.
\<close>

theorem zero_zoom_behaviour:
  fixes r :: "('t, 'a::linordered_field, 'm) BaseGameRenderer_scheme"
  assumes "zoom config = 0"
  shows "getCamera (setCamera r config) = config
     \<and> worldToScreen fcos fsin (setCamera r config) p
         = FixedVector2 (viewport_width (viewport r) / 2) (viewport_height (viewport r) / 2)
     \<and> screenToWorld fcos fsin (setCamera r config) q = Inl DivisionByZero"
  using assms
  by (simp add: getCamera_def setCamera_def worldToScreen_def screenToWorld_def Let_def
      vec_add_def)

theorem zero_zoom_behaviour_witness:
  "zoom \<lparr> position = FixedVector2 0 0, zoom = 0 :: real, rotation = 0, bounds = None,
          followTarget = None, followSpeed = None, deadZone = None \<rparr> = 0
   \<and> worldToScreen cos sin
        (setCamera (new_BaseGameRenderer :: (unit, real) BaseGameRenderer)
           \<lparr> position = FixedVector2 0 0, zoom = 0, rotation = 0, bounds = None,
             followTarget = None, followSpeed = None, deadZone = None \<rparr>)
        (FixedVector2 (- 20) 9) = FixedVector2 400 300
   \<and> screenToWorld cos sin
        (setCamera (new_BaseGameRenderer :: (unit, real) BaseGameRenderer)
           \<lparr> position = FixedVector2 0 0, zoom = 0, rotation = 0, bounds = None,
             followTarget = None, followSpeed = None, deadZone = None \<rparr>)
        (FixedVector2 10 20) = Inl DivisionByZero"
proof -
  define cfg :: "real CameraConfig" where
    "cfg = \<lparr> position = FixedVector2 0 0, zoom = 0, rotation = 0, bounds = None,
             followTarget = None, followSpeed = None, deadZone = None \<rparr>"
  have h: "zoom cfg = 0" by (simp add: cfg_def)
  have v: "viewport_width (viewport (new_BaseGameRenderer :: (unit, real) BaseGameRenderer)) / 2 = 400"
    "viewport_height (viewport (new_BaseGameRenderer :: (unit, real) BaseGameRenderer)) / 2 = 300"
    by (simp_all add: new_BaseGameRenderer_def)
  from zero_zoom_behaviour[OF h, of "new_BaseGameRenderer :: (unit, real) BaseGameRenderer"
      cos sin "FixedVector2 (- 20) 9" "FixedVector2 10 20"] h v
  show ?thesis unfolding cfg_def by simp
qed

text \<open>The claim as stated asks for an error at the call.  A camera with zoom zero is
  accepted by \<^verbatim>\<open>setCamera\<close>, and \<^verbatim>\<open>worldToScreen\<close> then returns the centre of the
  800 by 600 viewport for the point (5, 7).\<close>

theorem zero_zoom_counterexample:
  "zoom (getCamera (setCamera (new_BaseGameRenderer :: (unit, real) BaseGameRenderer)
           \<lparr> position = FixedVector2 0 0, zoom = 0, rotation = 0, bounds = None,
             followTarget = None, followSpeed = None, deadZone = None \<rparr>)) = 0
   \<and> worldToScreen cos sin
        (setCamera (new_BaseGameRenderer :: (unit, real) BaseGameRenderer)
           \<lparr> position = FixedVector2 0 0, zoom = 0, rotation = 0, bounds = None,
             followTarget = None, followSpeed = None, deadZone = None \<rparr>)
        (FixedVector2 5 7) = FixedVector2 400 300"
  by (simp add: getCamera_def setCamera_def worldToScreen_def new_BaseGameRenderer_def Let_def
      vec_add_def vec_subtract_def)

section \<open>Arrows\<close>

text \<open>
  C5, as the code has it.  When \<^verbatim>\<open>drawArrow\<close> is called with the start equal to the
  end, the shaft is drawn first and \<^verbatim>\<open>normalize\<close> is applied to the zero vector.  If
  that returns a direction \<open>d\<close>, the two lines of the head are drawn as for any other arrow,
  from the end to \<open>end - d * h\<close> plus and minus \<open>(- y d, x d) * (h / 2)\<close> for the head size
  \<open>h\<close>: three draw calls.  If it raises, the exception leaves \<^verbatim>\<open>drawArrow\<close> after the
  shaft has been drawn.
\<close>

theorem arrow_of_length_zero:
  fixes r :: "('t, 'a::linordered_field, 'm) BaseDebugRenderer_scheme"
  shows
  "drawArrow normalize_impl r p p col headSize =
     (case normalize_impl (FixedVector2 0 0) of
        Inl e \<Rightarrow>
          Raised e (drawLine r p p \<lparr> color = col, thickness = 1, dashPattern = None \<rparr>)
      | Inr d \<Rightarrow>
          Returned
            (drawLine
               (drawLine
                  (drawLine r p p \<lparr> color = col, thickness = 1, dashPattern = None \<rparr>)
                  p
                  (vec_add
                     (vec_subtract p (vec_multiply d
                        (case headSize of Some h \<Rightarrow> h | None \<Rightarrow> axisLength (debugConfig r) / 10)))
                     (vec_multiply (FixedVector2 (- y_of d) (x_of d))
                        ((case headSize of Some h \<Rightarrow> h | None \<Rightarrow> axisLength (debugConfig r) / 10) / 2)))
                  \<lparr> color = col, thickness = 1, dashPattern = None \<rparr>)
               p
               (vec_subtract
                  (vec_subtract p (vec_multiply d
                     (case headSize of Some h \<Rightarrow> h | None \<Rightarrow> axisLength (debugConfig r) / 10)))
                  (vec_multiply (FixedVector2 (- y_of d) (x_of d))
                     ((case headSize of Some h \<Rightarrow> h | None \<Rightarrow> axisLength (debugConfig r) / 10) / 2)))
               \<lparr> color = col, thickness = 1, dashPattern = None \<rparr>))"
  by (cases headSize; cases "normalize_impl (FixedVector2 0 0)")
     (simp_all add: drawArrow_def Let_def vec_subtract_def)

text \<open>The claim as stated asks for one draw call and no head.  With a
  \<^verbatim>\<open>normalize\<close> that returns the zero vector for the zero vector, three lines reach the
  backend, the two of the head being the degenerate line from the end to the end; with one
  that divides by the magnitude, the division by zero leaves \<^verbatim>\<open>drawArrow\<close> as an
  exception.\<close>

theorem arrow_of_length_zero_counterexample:
  "sink (final (drawArrow normalize_guarded
                  (new_BaseDebugRenderer \<lparr> showGrid = True, axisLength = 1 \<rparr>
                     :: (unit, real) BaseDebugRenderer)
                  (FixedVector2 1 2) (FixedVector2 1 2) (Color 1 0 0 1) (Some (1 / 5))))
     = [OnDrawLine (FixedVector2 1 2) (FixedVector2 1 2)
          \<lparr> color = Color 1 0 0 1, thickness = 1, dashPattern = None \<rparr>,
        OnDrawLine (FixedVector2 1 2) (FixedVector2 1 2)
          \<lparr> color = Color 1 0 0 1, thickness = 1, dashPattern = None \<rparr>,
        OnDrawLine (FixedVector2 1 2) (FixedVector2 1 2)
          \<lparr> color = Color 1 0 0 1, thickness = 1, dashPattern = None \<rparr>]
   \<and> drawCalls (statistics (final (drawArrow normalize_guarded
                  (new_BaseDebugRenderer \<lparr> showGrid = True, axisLength = 1 \<rparr>
                     :: (unit, real) BaseDebugRenderer)
                  (FixedVector2 1 2) (FixedVector2 1 2) (Color 1 0 0 1) (Some (1 / 5))))) = 3
   \<and> drawArrow normalize_unguarded
         (new_BaseDebugRenderer \<lparr> showGrid = True, axisLength = 1 \<rparr>
            :: (unit, real) BaseDebugRenderer)
         (FixedVector2 1 2) (FixedVector2 1 2) (Color 1 0 0 1) (Some (1 / 5))
       = Raised DivisionByZero
           (drawLine (new_BaseDebugRenderer \<lparr> showGrid = True, axisLength = 1 \<rparr>)
              (FixedVector2 1 2) (FixedVector2 1 2)
              \<lparr> color = Color 1 0 0 1, thickness = 1, dashPattern = None \<rparr>)"
  by (simp add: drawArrow_def normalize_guarded_def normalize_unguarded_def Let_def
      vec_subtract_def vec_add_def vec_multiply_def drawLine_def incrementDrawCall_def
      new_BaseDebugRenderer_def)

section \<open>Grid\<close>

text \<open>One round of each loop of \<^verbatim>\<open>drawGrid\<close>, and its exit.\<close>

lemma vertical_lines_step:
  "x \<le> endX \<Longrightarrow>
   vertical_lines spacing style bnds endX x lineCount r
     = vertical_lines spacing style bnds endX (x + spacing) (lineCount + 1)
         (drawLine r (FixedVector2 x (rect_y bnds))
            (FixedVector2 x (rect_y bnds + rect_height bnds)) (grid_line_style style lineCount))"
  by (subst vertical_lines.simps) simp

lemma vertical_lines_stop:
  "\<not> x \<le> endX \<Longrightarrow> vertical_lines spacing style bnds endX x lineCount r = Some r"
  by (subst vertical_lines.simps) simp

lemma horizontal_lines_step:
  "y \<le> endY \<Longrightarrow>
   horizontal_lines spacing style bnds endY y lineCount r
     = horizontal_lines spacing style bnds endY (y + spacing) (lineCount + 1)
         (drawLine r (FixedVector2 (rect_x bnds) y)
            (FixedVector2 (rect_x bnds + rect_width bnds) y) (grid_line_style style lineCount))"
  by (subst horizontal_lines.simps) simp

lemma horizontal_lines_stop:
  "\<not> y \<le> endY \<Longrightarrow> horizontal_lines spacing style bnds endY y lineCount r = Some r"
  by (subst horizontal_lines.simps) simp

text \<open>
  C6, as the code has it.  With spacing 1 and view bounds from -2.4 to 5.6 in x (and from 0
  to 1 in y), \<^verbatim>\<open>drawGrid\<close> returns after eleven draw calls.  The start is snapped down
  to \<open>floor (-2.4 / 1) * 1 = -3\<close>, and the vertical lines are drawn at the nine
  x-coordinates -3, -2, -1, 0, 1, 2, 3, 4, 5, each step adding the spacing while the
  coordinate does not exceed 5.6; the two horizontal lines at y = 0 and y = 1 follow.
\<close>

theorem grid_lines_example:
  fixes r :: "('t, 'a::floor_ceiling, 'm) BaseDebugRenderer_scheme"
  assumes "showGrid (debugConfig r)"
    and "getViewBounds screenToWorld_impl r = Inr (FixedRect (- (12 / 5)) 0 8 1)"
  shows "\<exists>r'. drawGrid screenToWorld_impl r 1 style = Some (Returned r')
     \<and> sink r' = sink r @
         [OnDrawLine (FixedVector2 (- 3) 0) (FixedVector2 (- 3) 1) (grid_line_style style 0),
          OnDrawLine (FixedVector2 (- 2) 0) (FixedVector2 (- 2) 1) (grid_line_style style 1),
          OnDrawLine (FixedVector2 (- 1) 0) (FixedVector2 (- 1) 1) (grid_line_style style 2),
          OnDrawLine (FixedVector2 0 0) (FixedVector2 0 1) (grid_line_style style 3),
          OnDrawLine (FixedVector2 1 0) (FixedVector2 1 1) (grid_line_style style 4),
          OnDrawLine (FixedVector2 2 0) (FixedVector2 2 1) (grid_line_style style 5),
          OnDrawLine (FixedVector2 3 0) (FixedVector2 3 1) (grid_line_style style 6),
          OnDrawLine (FixedVector2 4 0) (FixedVector2 4 1) (grid_line_style style 7),
          OnDrawLine (FixedVector2 5 0) (FixedVector2 5 1) (grid_line_style style 8),
          OnDrawLine (FixedVector2 (- (12 / 5)) 0) (FixedVector2 (28 / 5) 0)
            (grid_line_style style 0),
          OnDrawLine (FixedVector2 (- (12 / 5)) 1) (FixedVector2 (28 / 5) 1)
            (grid_line_style style 1)]
     \<and> drawCalls (statistics r') = drawCalls (statistics r) + 11"
  using assms
  by (simp add: drawGrid_def floor_fixed_def Let_def vertical_lines_step vertical_lines_stop
      horizontal_lines_step horizontal_lines_stop eval_nat_numeral)

theorem grid_lines_example_witness:
  "showGrid (debugConfig
      ((new_BaseDebugRenderer \<lparr> showGrid = True, axisLength = 1 \<rparr>
          :: (unit, rat) BaseDebugRenderer)
         \<lparr>viewport := \<lparr> viewport_x = - (12 / 5), viewport_y = 0, viewport_width = 8,
                        viewport_height = 1 \<rparr>\<rparr>))
   \<and> getViewBounds BaseRenderer_screenToWorld
        ((new_BaseDebugRenderer \<lparr> showGrid = True, axisLength = 1 \<rparr>
            :: (unit, rat) BaseDebugRenderer)
           \<lparr>viewport := \<lparr> viewport_x = - (12 / 5), viewport_y = 0, viewport_width = 8,
                          viewport_height = 1 \<rparr>\<rparr>)
       = Inr (FixedRect (- (12 / 5)) 0 8 1)
   \<and> (\<exists>r'. drawGrid BaseRenderer_screenToWorld
        ((new_BaseDebugRenderer \<lparr> showGrid = True, axisLength = 1 \<rparr>
            :: (unit, rat) BaseDebugRenderer)
           \<lparr>viewport := \<lparr> viewport_x = - (12 / 5), viewport_y = 0, viewport_width = 8,
                          viewport_height = 1 \<rparr>\<rparr>)
        1 \<lparr> lineStyle = \<lparr> color = Color 1 1 1 1, thickness = 1, dashPattern = None \<rparr>,
            majorLineStyle = None, majorLineInterval = None \<rparr>
       = Some (Returned r') \<and> drawCalls (statistics r') = 11)"
proof -
  define r :: "(unit, rat) BaseDebugRenderer" where
    "r = (new_BaseDebugRenderer \<lparr> showGrid = True, axisLength = 1 \<rparr>)
           \<lparr>viewport := \<lparr> viewport_x = - (12 / 5), viewport_y = 0, viewport_width = 8,
                          viewport_height = 1 \<rparr>\<rparr>"
  have h1: "showGrid (debugConfig r)"
    by (simp add: r_def new_BaseDebugRenderer_def)
  have h2: "getViewBounds BaseRenderer_screenToWorld r = Inr (FixedRect (- (12 / 5)) 0 8 1)"
    by (simp add: r_def new_BaseDebugRenderer_def getViewBounds_def
        BaseRenderer_screenToWorld_def)
  have h3: "drawCalls (statistics r) = 0"
    by (simp add: r_def new_BaseDebugRenderer_def)
  from grid_lines_example[OF h1 h2,
      of "\<lparr> lineStyle = \<lparr> color = Color 1 1 1 1, thickness = 1, dashPattern = None \<rparr>,
            majorLineStyle = None, majorLineInterval = None \<rparr>"]
  obtain r' where "drawGrid BaseRenderer_screenToWorld r 1
        \<lparr> lineStyle = \<lparr> color = Color 1 1 1 1, thickness = 1, dashPattern = None \<rparr>,
            majorLineStyle = None, majorLineInterval = None \<rparr> = Some (Returned r')"
    and "drawCalls (statistics r') = drawCalls (statistics r) + 11"
    by blast
  with h1 h2 h3 show ?thesis unfolding r_def by auto
qed

text \<open>The claim as stated lists the x-coordinates -2 to 5.  The vertical lines that reach
  the backend start at -3, the multiple of the spacing below the left bound -2.4.\<close>

theorem grid_lines_counterexample:
  "map_option (vertical_xs \<circ> sink \<circ> final)
     (drawGrid BaseRenderer_screenToWorld
        ((new_BaseDebugRenderer \<lparr> showGrid = True, axisLength = 1 \<rparr>
            :: (unit, rat) BaseDebugRenderer)
           \<lparr>viewport := \<lparr> viewport_x = - (12 / 5), viewport_y = 0, viewport_width = 8,
                          viewport_height = 1 \<rparr>\<rparr>)
        1 \<lparr> lineStyle = \<lparr> color = Color 1 1 1 1, thickness = 1, dashPattern = None \<rparr>,
            majorLineStyle = None, majorLineInterval = None \<rparr>)
     = Some [- 3, - 2, - 1, 0, 1, 2, 3, 4, 5]
   \<and> map_option (set \<circ> vertical_xs \<circ> sink \<circ> final)
     (drawGrid BaseRenderer_screenToWorld
        ((new_BaseDebugRenderer \<lparr> showGrid = True, axisLength = 1 \<rparr>
            :: (unit, rat) BaseDebugRenderer)
           \<lparr>viewport := \<lparr> viewport_x = - (12 / 5), viewport_y = 0, viewport_width = 8,
                          viewport_height = 1 \<rparr>\<rparr>)
        1 \<lparr> lineStyle = \<lparr> color = Color 1 1 1 1, thickness = 1, dashPattern = None \<rparr>,
            majorLineStyle = None, majorLineInterval = None \<rparr>)
     \<noteq> Some {- 2, - 1, 0, 1, 2, 3, 4, 5}"
proof -
  define G where "G = drawGrid BaseRenderer_screenToWorld
        ((new_BaseDebugRenderer \<lparr> showGrid = True, axisLength = 1 \<rparr>
            :: (unit, rat) BaseDebugRenderer)
           \<lparr>viewport := \<lparr> viewport_x = - (12 / 5), viewport_y = 0, viewport_width = 8,
                          viewport_height = 1 \<rparr>\<rparr>)
        1 \<lparr> lineStyle = \<lparr> color = Color 1 1 1 1, thickness = 1, dashPattern = None \<rparr>,
            majorLineStyle = None, majorLineInterval = None \<rparr>"
  have xs: "map_option (vertical_xs \<circ> sink \<circ> final) G
              = Some [- 3, - 2, - 1, 0, 1, 2, 3, 4, 5]"
    unfolding G_def
    by (simp add: drawGrid_def floor_fixed_def Let_def vertical_lines_step vertical_lines_stop
        horizontal_lines_step horizontal_lines_stop new_BaseDebugRenderer_def getViewBounds_def
        BaseRenderer_screenToWorld_def vertical_xs_def)
  have "(- 3 :: rat) \<notin> {- 2, - 1, 0, 1, 2, 3, 4, 5}" by simp
  then have ne: "set [- 3, - 2, - 1, 0, 1, 2, 3, 4, 5 :: rat] \<noteq> {- 2, - 1, 0, 1, 2, 3, 4, 5}"
    by (metis list.set_intros(1))
  from xs have "map_option (set \<circ> vertical_xs \<circ> sink \<circ> final) G
              = Some (set [- 3, - 2, - 1, 0, 1, 2, 3, 4, 5])"
    by (cases G) simp_all
  with ne have "map_option (set \<circ> vertical_xs \<circ> sink \<circ> final) G
              \<noteq> Some {- 2, - 1, 0, 1, 2, 3, 4, 5}"
    by (simp only: option.inject not_False_eq_True)
  with xs show ?thesis unfolding G_def by (rule conjI)
qed

text \<open>A loop of \<^verbatim>\<open>drawGrid\<close> that is entered with a negative spacing is never left:
  the coordinate only decreases.\<close>

lemma vertical_lines_some_cases:
  fixes spacing :: "'a::linordered_field"
  assumes "vertical_lines spacing style bnds endX x n r = Some y"
  shows "spacing < 0 \<longrightarrow> \<not> x \<le> endX"
proof (rule vertical_lines.raw_induct[where P = "\<lambda>s st b e x n r y. s < 0 \<longrightarrow> \<not> x \<le> e"
        and xa = "((((((spacing, style), bnds), endX), x), n), r)" and y = y, simplified])
  show "vertical_lines spacing style bnds endX x n r = Some y" by (rule assms)
next
  fix f :: "'a \<Rightarrow> 'a GridStyle \<Rightarrow> 'a FixedRect \<Rightarrow> 'a \<Rightarrow> 'a \<Rightarrow> nat \<Rightarrow> ('b, 'a, 'c) BaseRenderer_scheme \<Rightarrow> ('b, 'a, 'c) BaseRenderer_scheme option"
  fix s st b e x' n' r0 y'
  assume IH: "\<And>s st b e x n r y. f s st b e x n r = Some y \<Longrightarrow> s < 0 \<longrightarrow> \<not> x \<le> e"
    and body: "(if x' \<le> e then f s st b e (x' + s) (n' + 1)
                   (drawLine r0 (FixedVector2 x' (rect_y b))
                     (FixedVector2 x' (rect_y b + rect_height b)) (grid_line_style st n'))
                else Some r0) = Some y'"
  show "s < 0 \<longrightarrow> \<not> x' \<le> e"
  proof (intro impI notI)
    assume a: "s < 0" "x' \<le> e"
    with body have "f s st b e (x' + s) (n' + 1)
                   (drawLine r0 (FixedVector2 x' (rect_y b))
                     (FixedVector2 x' (rect_y b + rect_height b)) (grid_line_style st n')) = Some y'" by simp
    from IH[OF this] a show False by simp
  qed
qed

lemma vertical_lines_never_returns:
  fixes spacing :: "'a::linordered_field"
  assumes "spacing < 0" and "x \<le> endX"
  shows "vertical_lines spacing style bnds endX x n r = None"
proof (cases "vertical_lines spacing style bnds endX x n r")
  case None
  then show ?thesis .
next
  case (Some y)
  from vertical_lines_some_cases[OF this] assms show ?thesis by simp
qed

text \<open>
  C8, as the code has it.  \<^verbatim>\<open>drawGrid\<close> does not validate the spacing.  When the grid
  is switched off it returns at once and draws nothing, whatever the spacing.  When the grid
  is switched on and the view bounds are available, a spacing of zero makes the first
  division raise: the call fails with the division by zero before any line is drawn, and
  the renderer is unchanged.  For every other spacing, the negative ones included, the call
  raises no error.
\<close>

theorem grid_spacing_unvalidated:
  fixes r :: "('t, 'a::floor_ceiling, 'm) BaseDebugRenderer_scheme"
  shows "(\<not> showGrid (debugConfig r)
            \<longrightarrow> drawGrid screenToWorld_impl r spacing style = Some (Returned r))
     \<and> (showGrid (debugConfig r) \<and> getViewBounds screenToWorld_impl r = Inr bnds
            \<longrightarrow> drawGrid screenToWorld_impl r 0 style = Some (Raised DivisionByZero r))
     \<and> (showGrid (debugConfig r) \<and> getViewBounds screenToWorld_impl r = Inr bnds
          \<and> spacing \<noteq> 0
            \<longrightarrow> drawGrid screenToWorld_impl r spacing style \<noteq> Some (Raised e r'))"
proof -
  have hidden: "drawGrid screenToWorld_impl r spacing style = Some (Returned r)"
    if "\<not> showGrid (debugConfig r)"
    using that by (simp add: drawGrid_def)
  have zero: "drawGrid screenToWorld_impl r 0 style = Some (Raised DivisionByZero r)"
    if "showGrid (debugConfig r)" and "getViewBounds screenToWorld_impl r = Inr bnds"
    using that by (simp add: drawGrid_def)
  have nonzero: "drawGrid screenToWorld_impl r spacing style \<noteq> Some (Raised e r')"
    if "showGrid (debugConfig r)" and "getViewBounds screenToWorld_impl r = Inr bnds"
      and "spacing \<noteq> 0"
    using that by (auto simp add: drawGrid_def Let_def bind_eq_Some_conv)
  from hidden zero nonzero show ?thesis by blast
qed

theorem grid_spacing_unvalidated_witness:
  "\<not> showGrid (debugConfig
        (new_BaseDebugRenderer \<lparr> showGrid = False, axisLength = 1 \<rparr>
           :: (unit, rat) BaseDebugRenderer))
   \<and> drawGrid BaseRenderer_screenToWorld
        (new_BaseDebugRenderer \<lparr> showGrid = False, axisLength = 1 \<rparr>
           :: (unit, rat) BaseDebugRenderer)
        (- 1) \<lparr> lineStyle = \<lparr> color = Color 1 1 1 1, thickness = 1, dashPattern = None \<rparr>,
            majorLineStyle = None, majorLineInterval = None \<rparr>
       = Some (Returned (new_BaseDebugRenderer \<lparr> showGrid = False, axisLength = 1 \<rparr>))
   \<and> showGrid (debugConfig
        (new_BaseDebugRenderer \<lparr> showGrid = True, axisLength = 1 \<rparr>
           :: (unit, rat) BaseDebugRenderer))
   \<and> getViewBounds BaseRenderer_screenToWorld
        (new_BaseDebugRenderer \<lparr> showGrid = True, axisLength = 1 \<rparr>
           :: (unit, rat) BaseDebugRenderer)
       = Inr (FixedRect 0 0 800 600)
   \<and> drawGrid BaseRenderer_screenToWorld
        (new_BaseDebugRenderer \<lparr> showGrid = True, axisLength = 1 \<rparr>
           :: (unit, rat) BaseDebugRenderer)
        0 \<lparr> lineStyle = \<lparr> color = Color 1 1 1 1, thickness = 1, dashPattern = None \<rparr>,
            majorLineStyle = None, majorLineInterval = None \<rparr>
       = Some (Raised DivisionByZero
                 (new_BaseDebugRenderer \<lparr> showGrid = True, axisLength = 1 \<rparr>))
   \<and> (- 1 :: rat) \<noteq> 0
   \<and> drawGrid BaseRenderer_screenToWorld
        (new_BaseDebugRenderer \<lparr> showGrid = True, axisLength = 1 \<rparr>
           :: (unit, rat) BaseDebugRenderer)
        (- 1) \<lparr> lineStyle = \<lparr> color = Color 1 1 1 1, thickness = 1, dashPattern = None \<rparr>,
            majorLineStyle = None, majorLineInterval = None \<rparr>
       \<noteq> Some (Raised DivisionByZero
                 (new_BaseDebugRenderer \<lparr> showGrid = True, axisLength = 1 \<rparr>))"
proof -
  define off :: "(unit, rat) BaseDebugRenderer" where
    "off = new_BaseDebugRenderer \<lparr> showGrid = False, axisLength = 1 \<rparr>"
  define on :: "(unit, rat) BaseDebugRenderer" where
    "on = new_BaseDebugRenderer \<lparr> showGrid = True, axisLength = 1 \<rparr>"
  have h1: "\<not> showGrid (debugConfig off)" by (simp add: off_def new_BaseDebugRenderer_def)
  have h2: "showGrid (debugConfig on)" by (simp add: on_def new_BaseDebugRenderer_def)
  have h3: "getViewBounds BaseRenderer_screenToWorld on = Inr (FixedRect 0 0 800 600)"
    by (simp add: on_def new_BaseDebugRenderer_def getViewBounds_def
        BaseRenderer_screenToWorld_def)
  have a: "drawGrid BaseRenderer_screenToWorld off (- 1) \<lparr> lineStyle = \<lparr> color = Color 1 1 1 1, thickness = 1, dashPattern = None \<rparr>,
            majorLineStyle = None, majorLineInterval = None \<rparr>
      = Some (Returned off)"
    using grid_spacing_unvalidated[where r = off and screenToWorld_impl = BaseRenderer_screenToWorld
        and spacing = "- 1", THEN conjunct1]
      h1 by blast
  have b: "drawGrid BaseRenderer_screenToWorld on 0 \<lparr> lineStyle = \<lparr> color = Color 1 1 1 1, thickness = 1, dashPattern = None \<rparr>,
            majorLineStyle = None, majorLineInterval = None \<rparr>
      = Some (Raised DivisionByZero on)"
    using grid_spacing_unvalidated[where r = on and screenToWorld_impl = BaseRenderer_screenToWorld
        and bnds = "FixedRect 0 0 800 600", THEN conjunct2, THEN conjunct1] h2 h3 by blast
  have h4: "(- 1 :: rat) \<noteq> 0" by simp
  have c: "drawGrid BaseRenderer_screenToWorld on (- 1) \<lparr> lineStyle = \<lparr> color = Color 1 1 1 1, thickness = 1, dashPattern = None \<rparr>,
            majorLineStyle = None, majorLineInterval = None \<rparr>
      \<noteq> Some (Raised DivisionByZero on)"
    using grid_spacing_unvalidated[where r = on and screenToWorld_impl = BaseRenderer_screenToWorld
        and bnds = "FixedRect 0 0 800 600" and spacing = "- 1", THEN conjunct2, THEN conjunct2]
      h2 h3 h4 by blast
  from h1 h2 h3 h4 a b c show ?thesis unfolding off_def on_def by blast
qed

text \<open>The claim as stated asks that the call return with an error for every spacing that
  is not positive.  With the grid switched on, the 800 by 600 viewport and spacing -1, the
  loop over the vertical lines starts at 0 and never ends: the call does not return.\<close>

theorem grid_negative_spacing_counterexample:
  "drawGrid BaseRenderer_screenToWorld
     (new_BaseDebugRenderer \<lparr> showGrid = True, axisLength = 1 \<rparr>
        :: (unit, rat) BaseDebugRenderer)
     (- 1) \<lparr> lineStyle = \<lparr> color = Color 1 1 1 1, thickness = 1, dashPattern = None \<rparr>,
             majorLineStyle = None, majorLineInterval = None \<rparr>
   = None"
  by (simp add: drawGrid_def floor_fixed_def Let_def new_BaseDebugRenderer_def getViewBounds_def
      BaseRenderer_screenToWorld_def vertical_lines_never_returns)


section \<open>Joint limits\<close>

lemma joint_limit_points_eq:
  "i \<le> Suc segments \<Longrightarrow>
   joint_limit_points fcos fsin center minAngle angleStep radius segments i points
     = points @ map (\<lambda>k. vec_add center
                             (FixedVector2 (fcos (minAngle + angleStep * of_nat k) * radius)
                                           (fsin (minAngle + angleStep * of_nat k) * radius)))
                  [i..<Suc segments]"
proof (induction fcos fsin center minAngle angleStep radius segments i points
       rule: joint_limit_points.induct)
  case (1 fcos fsin center minAngle angleStep radius segments i points)
  show ?case
  proof (cases "i \<le> segments")
    case True
    then have "[i..<Suc segments] = i # [Suc i..<Suc segments]"
      by (simp add: upt_conv_Cons)
    with True "1.IH"[OF True refl refl] show ?thesis
      by (subst joint_limit_points.simps) (simp add: Let_def)
  next
    case False
    with "1.prems" have "i = Suc segments" by simp
    then show ?thesis by (subst joint_limit_points.simps) simp
  qed
qed

text \<open>
  C9.  \<^verbatim>\<open>drawJointLimits\<close> returns after a single polygon draw call.  Its vertex list
  is the centre followed by the 17 points
  \<open>centre + (fcos a * radius, fsin a * radius)\<close> at the angles
  \<open>a = minAngle + (maxAngle - minAngle) / 16 * i\<close> for \<open>i\<close> from 0 to 16: 18 points,
  with 16 segments whatever the arguments are, in particular for \<open>minAngle = 0\<close>,
  \<open>maxAngle = pi\<close> and \<open>radius = 1\<close>.
\<close>

theorem joint_limits_fan:
  fixes r :: "('t, 'a::linordered_field, 'm) BasePhysicsDebugRenderer_scheme"
  shows
  "drawJointLimits fcos fsin r center minAngle maxAngle radius
     = Returned
         (drawPolygon r
            (center #
             map (\<lambda>i. vec_add center
                    (FixedVector2
                       (fcos (minAngle + (maxAngle - minAngle) / 16 * of_nat i) * radius)
                       (fsin (minAngle + (maxAngle - minAngle) / 16 * of_nat i) * radius)))
               [0..<17])
            \<lparr> fillColor = Some (Color (red (jointLimit (colors (physicsConfig r))))
                                   (green (jointLimit (colors (physicsConfig r))))
                                   (blue (jointLimit (colors (physicsConfig r)))) (3 / 10)),
              strokeColor = Some (jointLimit (colors (physicsConfig r))),
              strokeThickness = Some 1,
              shapeDashPattern = None \<rparr>)
   \<and> sink (final (drawJointLimits fcos fsin r center minAngle maxAngle radius))
     = sink r @
       [OnDrawPolygon
          (center #
           map (\<lambda>i. vec_add center
                  (FixedVector2
                     (fcos (minAngle + (maxAngle - minAngle) / 16 * of_nat i) * radius)
                     (fsin (minAngle + (maxAngle - minAngle) / 16 * of_nat i) * radius)))
             [0..<17])
          \<lparr> fillColor = Some (Color (red (jointLimit (colors (physicsConfig r))))
                                 (green (jointLimit (colors (physicsConfig r))))
                                 (blue (jointLimit (colors (physicsConfig r)))) (3 / 10)),
            strokeColor = Some (jointLimit (colors (physicsConfig r))),
            strokeThickness = Some 1,
            shapeDashPattern = None \<rparr>]
   \<and> length (center #
         map (\<lambda>i. vec_add center
                (FixedVector2
                   (fcos (minAngle + (maxAngle - minAngle) / 16 * of_nat i) * radius)
                   (fsin (minAngle + (maxAngle - minAngle) / 16 * of_nat i) * radius)))
           [0..<17]) = 18"
proof -
  have n16: "(of_nat 16 :: 'a) \<noteq> 0" by simp
  have seventeen: "Suc 16 = 17" by simp
  have pts: "joint_limit_points fcos fsin center minAngle ((maxAngle - minAngle) / 16) radius 16 0 [center]
      = center # map (\<lambda>i. vec_add center
                    (FixedVector2
                       (fcos (minAngle + (maxAngle - minAngle) / 16 * of_nat i) * radius)
                       (fsin (minAngle + (maxAngle - minAngle) / 16 * of_nat i) * radius)))
               [0..<17]"
    using joint_limit_points_eq[of 0 16 fcos fsin center minAngle "(maxAngle - minAngle) / 16" radius "[center]"]
    by (simp only: seventeen append_Cons append_Nil le0)
  have main: "drawJointLimits fcos fsin r center minAngle maxAngle radius
     = Returned
         (drawPolygon r
            (center #
             map (\<lambda>i. vec_add center
                    (FixedVector2
                       (fcos (minAngle + (maxAngle - minAngle) / 16 * of_nat i) * radius)
                       (fsin (minAngle + (maxAngle - minAngle) / 16 * of_nat i) * radius)))
               [0..<17])
            \<lparr> fillColor = Some (Color (red (jointLimit (colors (physicsConfig r))))
                                   (green (jointLimit (colors (physicsConfig r))))
                                   (blue (jointLimit (colors (physicsConfig r)))) (3 / 10)),
              strokeColor = Some (jointLimit (colors (physicsConfig r))),
              strokeThickness = Some 1,
              shapeDashPattern = None \<rparr>)"
    unfolding drawJointLimits_def Let_def using pts by simp
  show ?thesis
    unfolding main by (simp add: drawPolygon_def incrementDrawCall_def Let_def)
qed

end
